theory Spec2Isabelle
  imports Complex_Main
begin

section \<open>Chaos PBD joint constraint utilities\<close>

text \<open>
  A shallow embedding of \<^verbatim>\<open>FPBDJointUtilities\<close>
  (\<^verbatim>\<open>Chaos/Private/Chaos/PBDJointConstraintUtilities.cpp\<close>).

  The program's scalar type \<^verbatim>\<open>FReal\<close> is binary32. The functions are embedded twice.
  The first embedding is over \<^typ>\<open>real\<close>: it is the program in exact arithmetic, without
  rounding, infinities or NaN, and the statements that say so are about it. The second
  embedding, with names ending in \<open>_f32\<close>, rounds every arithmetic operation to binary32; it
  is used to evaluate the program where a statement depends on rounding.
  Output parameters of the C++ functions become components of the returned value.
\<close>

subsection \<open>Value types\<close>

text \<open>\<^verbatim>\<open>FRotation3\<close>: a quaternion with imaginary part \<open>(X, Y, Z)\<close> and scalar part \<open>W\<close>.\<close>

record FRotation3 =
  X :: real
  Y :: real
  Z :: real
  W :: real

text \<open>\<^verbatim>\<open>FVec3\<close>: a 3-vector. Its fields are declared after the quaternion's, so the
  plain names \<open>X\<close>, \<open>Y\<close>, \<open>Z\<close> are the vector's and the quaternion's are written
  \<open>FRotation3.X\<close> and so on.\<close>

record FVec3 =
  X :: real
  Y :: real
  Z :: real

datatype EJointMotionType = Free | Limited | Locked

datatype EJointForceMode = Acceleration | Force

text \<open>\<^verbatim>\<open>TVector<T, 3>\<close> for a non-scalar \<open>T\<close>, read by index as in
  \<^verbatim>\<open>LinearMotionTypes[0]\<close>.\<close>

datatype 'a TVector3 = TVector3 'a 'a 'a

fun At :: "'a TVector3 \<Rightarrow> nat \<Rightarrow> 'a" where
  "At (TVector3 a b c) i = (if i = 0 then a else if i = 1 then b else c)"

subsection \<open>Settings\<close>

text \<open>The fields of \<^verbatim>\<open>FPBDJointSolverSettings\<close> and \<^verbatim>\<open>FPBDJointSettings\<close>
  that the utilities read. The joint's fields are declared last, so a plain field name
  shared by both records is the joint's and the solver's is written
  \<open>FPBDJointSolverSettings.Stiffness\<close> and so on.\<close>

record FPBDJointSolverSettings =
  Stiffness :: real
  SoftLinearStiffness :: real
  SoftLinearDamping :: real
  SoftTwistStiffness :: real
  SoftTwistDamping :: real
  SoftSwingStiffness :: real
  SoftSwingDamping :: real
  LinearDriveStiffness :: real
  LinearDriveDamping :: real
  AngularDriveStiffness :: real
  AngularDriveDamping :: real
  LinearProjection :: real
  AngularProjection :: real
  AngularConstraintPositionCorrection :: real

record FPBDJointSettings =
  Stiffness :: real
  LinearProjection :: real
  AngularProjection :: real
  LinearMotionTypes :: "EJointMotionType TVector3"
  LinearLimit :: real
  bSoftLinearLimitsEnabled :: bool
  LinearSoftForceMode :: EJointForceMode
  AngularSoftForceMode :: EJointForceMode
  SoftLinearStiffness :: real
  SoftLinearDamping :: real
  SoftTwistStiffness :: real
  SoftTwistDamping :: real
  SoftSwingStiffness :: real
  SoftSwingDamping :: real
  LinearDriveStiffness :: real
  LinearDriveDamping :: real
  bAngularSLerpPositionDriveEnabled :: bool
  bAngularSLerpVelocityDriveEnabled :: bool
  bAngularTwistPositionDriveEnabled :: bool
  bAngularTwistVelocityDriveEnabled :: bool
  bAngularSwingPositionDriveEnabled :: bool
  bAngularSwingVelocityDriveEnabled :: bool
  AngularDriveForceMode :: EJointForceMode
  AngularDriveStiffness :: real
  AngularDriveDamping :: real

text \<open>Two concrete settings values with every coefficient zero and every flag false, used
  as the base of the concrete inputs below.\<close>

definition ZeroSolverSettings :: FPBDJointSolverSettings where
  "ZeroSolverSettings =
     \<lparr> FPBDJointSolverSettings.Stiffness = 0,
       FPBDJointSolverSettings.SoftLinearStiffness = 0,
       FPBDJointSolverSettings.SoftLinearDamping = 0,
       FPBDJointSolverSettings.SoftTwistStiffness = 0,
       FPBDJointSolverSettings.SoftTwistDamping = 0,
       FPBDJointSolverSettings.SoftSwingStiffness = 0,
       FPBDJointSolverSettings.SoftSwingDamping = 0,
       FPBDJointSolverSettings.LinearDriveStiffness = 0,
       FPBDJointSolverSettings.LinearDriveDamping = 0,
       FPBDJointSolverSettings.AngularDriveStiffness = 0,
       FPBDJointSolverSettings.AngularDriveDamping = 0,
       FPBDJointSolverSettings.LinearProjection = 0,
       FPBDJointSolverSettings.AngularProjection = 0,
       AngularConstraintPositionCorrection = 0 \<rparr>"

definition ZeroJointSettings :: FPBDJointSettings where
  "ZeroJointSettings =
     \<lparr> Stiffness = 0,
       LinearProjection = 0,
       AngularProjection = 0,
       LinearMotionTypes = TVector3 Locked Locked Locked,
       LinearLimit = 0,
       bSoftLinearLimitsEnabled = False,
       LinearSoftForceMode = Acceleration,
       AngularSoftForceMode = Acceleration,
       SoftLinearStiffness = 0,
       SoftLinearDamping = 0,
       SoftTwistStiffness = 0,
       SoftTwistDamping = 0,
       SoftSwingStiffness = 0,
       SoftSwingDamping = 0,
       LinearDriveStiffness = 0,
       LinearDriveDamping = 0,
       bAngularSLerpPositionDriveEnabled = False,
       bAngularSLerpVelocityDriveEnabled = False,
       bAngularTwistPositionDriveEnabled = False,
       bAngularTwistVelocityDriveEnabled = False,
       bAngularSwingPositionDriveEnabled = False,
       bAngularSwingVelocityDriveEnabled = False,
       AngularDriveForceMode = Acceleration,
       AngularDriveStiffness = 0,
       AngularDriveDamping = 0 \<rparr>"

subsection \<open>Settings resolver\<close>

definition GetLinearStiffness :: "FPBDJointSolverSettings \<Rightarrow> FPBDJointSettings \<Rightarrow> real" where
  "GetLinearStiffness SolverSettings JointSettings =
     (if FPBDJointSolverSettings.Stiffness SolverSettings > 0
      then FPBDJointSolverSettings.Stiffness SolverSettings
      else Stiffness JointSettings)"

definition GetSoftLinearStiffness :: "FPBDJointSolverSettings \<Rightarrow> FPBDJointSettings \<Rightarrow> real" where
  "GetSoftLinearStiffness SolverSettings JointSettings =
     (if FPBDJointSolverSettings.SoftLinearStiffness SolverSettings > 0
      then FPBDJointSolverSettings.SoftLinearStiffness SolverSettings
      else SoftLinearStiffness JointSettings)"

definition GetSoftLinearDamping :: "FPBDJointSolverSettings \<Rightarrow> FPBDJointSettings \<Rightarrow> real" where
  "GetSoftLinearDamping SolverSettings JointSettings =
     (if FPBDJointSolverSettings.SoftLinearDamping SolverSettings > 0
      then FPBDJointSolverSettings.SoftLinearDamping SolverSettings
      else SoftLinearDamping JointSettings)"

definition GetTwistStiffness :: "FPBDJointSolverSettings \<Rightarrow> FPBDJointSettings \<Rightarrow> real" where
  "GetTwistStiffness SolverSettings JointSettings =
     (if FPBDJointSolverSettings.Stiffness SolverSettings > 0
      then FPBDJointSolverSettings.Stiffness SolverSettings
      else Stiffness JointSettings)"

definition GetSoftTwistStiffness :: "FPBDJointSolverSettings \<Rightarrow> FPBDJointSettings \<Rightarrow> real" where
  "GetSoftTwistStiffness SolverSettings JointSettings =
     (if FPBDJointSolverSettings.SoftTwistStiffness SolverSettings > 0
      then FPBDJointSolverSettings.SoftTwistStiffness SolverSettings
      else SoftTwistStiffness JointSettings)"

definition GetSoftTwistDamping :: "FPBDJointSolverSettings \<Rightarrow> FPBDJointSettings \<Rightarrow> real" where
  "GetSoftTwistDamping SolverSettings JointSettings =
     (if FPBDJointSolverSettings.SoftTwistDamping SolverSettings > 0
      then FPBDJointSolverSettings.SoftTwistDamping SolverSettings
      else SoftTwistDamping JointSettings)"

definition GetSwingStiffness :: "FPBDJointSolverSettings \<Rightarrow> FPBDJointSettings \<Rightarrow> real" where
  "GetSwingStiffness SolverSettings JointSettings =
     (if FPBDJointSolverSettings.Stiffness SolverSettings > 0
      then FPBDJointSolverSettings.Stiffness SolverSettings
      else Stiffness JointSettings)"

definition GetSoftSwingStiffness :: "FPBDJointSolverSettings \<Rightarrow> FPBDJointSettings \<Rightarrow> real" where
  "GetSoftSwingStiffness SolverSettings JointSettings =
     (if FPBDJointSolverSettings.SoftSwingStiffness SolverSettings > 0
      then FPBDJointSolverSettings.SoftSwingStiffness SolverSettings
      else SoftSwingStiffness JointSettings)"

definition GetSoftSwingDamping :: "FPBDJointSolverSettings \<Rightarrow> FPBDJointSettings \<Rightarrow> real" where
  "GetSoftSwingDamping SolverSettings JointSettings =
     (if FPBDJointSolverSettings.SoftSwingDamping SolverSettings > 0
      then FPBDJointSolverSettings.SoftSwingDamping SolverSettings
      else SoftSwingDamping JointSettings)"

definition GetLinearDriveStiffness :: "FPBDJointSolverSettings \<Rightarrow> FPBDJointSettings \<Rightarrow> real" where
  "GetLinearDriveStiffness SolverSettings JointSettings =
     (if FPBDJointSolverSettings.LinearDriveStiffness SolverSettings > 0
      then FPBDJointSolverSettings.LinearDriveStiffness SolverSettings
      else LinearDriveStiffness JointSettings)"

definition GetLinearDriveDamping :: "FPBDJointSolverSettings \<Rightarrow> FPBDJointSettings \<Rightarrow> real" where
  "GetLinearDriveDamping SolverSettings JointSettings =
     (if FPBDJointSolverSettings.LinearDriveDamping SolverSettings > 0
      then FPBDJointSolverSettings.LinearDriveDamping SolverSettings
      else LinearDriveDamping JointSettings)"

definition GetAngularTwistDriveStiffness :: "FPBDJointSolverSettings \<Rightarrow> FPBDJointSettings \<Rightarrow> real" where
  "GetAngularTwistDriveStiffness SolverSettings JointSettings =
     (if bAngularTwistPositionDriveEnabled JointSettings
      then (if FPBDJointSolverSettings.AngularDriveStiffness SolverSettings > 0
            then FPBDJointSolverSettings.AngularDriveStiffness SolverSettings
            else AngularDriveStiffness JointSettings)
      else 0)"

definition GetAngularTwistDriveDamping :: "FPBDJointSolverSettings \<Rightarrow> FPBDJointSettings \<Rightarrow> real" where
  "GetAngularTwistDriveDamping SolverSettings JointSettings =
     (if bAngularTwistVelocityDriveEnabled JointSettings
      then (if FPBDJointSolverSettings.AngularDriveDamping SolverSettings > 0
            then FPBDJointSolverSettings.AngularDriveDamping SolverSettings
            else AngularDriveDamping JointSettings)
      else 0)"

definition GetAngularSwingDriveStiffness :: "FPBDJointSolverSettings \<Rightarrow> FPBDJointSettings \<Rightarrow> real" where
  "GetAngularSwingDriveStiffness SolverSettings JointSettings =
     (if bAngularSwingPositionDriveEnabled JointSettings
      then (if FPBDJointSolverSettings.AngularDriveStiffness SolverSettings > 0
            then FPBDJointSolverSettings.AngularDriveStiffness SolverSettings
            else AngularDriveStiffness JointSettings)
      else 0)"

definition GetAngularSwingDriveDamping :: "FPBDJointSolverSettings \<Rightarrow> FPBDJointSettings \<Rightarrow> real" where
  "GetAngularSwingDriveDamping SolverSettings JointSettings =
     (if bAngularSwingVelocityDriveEnabled JointSettings
      then (if FPBDJointSolverSettings.AngularDriveDamping SolverSettings > 0
            then FPBDJointSolverSettings.AngularDriveDamping SolverSettings
            else AngularDriveDamping JointSettings)
      else 0)"

definition GetAngularSLerpDriveStiffness :: "FPBDJointSolverSettings \<Rightarrow> FPBDJointSettings \<Rightarrow> real" where
  "GetAngularSLerpDriveStiffness SolverSettings JointSettings =
     (if bAngularSLerpPositionDriveEnabled JointSettings
      then (if FPBDJointSolverSettings.AngularDriveStiffness SolverSettings > 0
            then FPBDJointSolverSettings.AngularDriveStiffness SolverSettings
            else AngularDriveStiffness JointSettings)
      else 0)"

definition GetAngularSLerpDriveDamping :: "FPBDJointSolverSettings \<Rightarrow> FPBDJointSettings \<Rightarrow> real" where
  "GetAngularSLerpDriveDamping SolverSettings JointSettings =
     (if bAngularSLerpVelocityDriveEnabled JointSettings
      then (if FPBDJointSolverSettings.AngularDriveDamping SolverSettings > 0
            then FPBDJointSolverSettings.AngularDriveDamping SolverSettings
            else AngularDriveDamping JointSettings)
      else 0)"

definition GetLinearProjection :: "FPBDJointSolverSettings \<Rightarrow> FPBDJointSettings \<Rightarrow> real" where
  "GetLinearProjection SolverSettings JointSettings =
     (if FPBDJointSolverSettings.LinearProjection SolverSettings > 0
      then FPBDJointSolverSettings.LinearProjection SolverSettings
      else LinearProjection JointSettings)"

definition GetAngularProjection :: "FPBDJointSolverSettings \<Rightarrow> FPBDJointSettings \<Rightarrow> real" where
  "GetAngularProjection SolverSettings JointSettings =
     (if FPBDJointSolverSettings.AngularProjection SolverSettings > 0
      then FPBDJointSolverSettings.AngularProjection SolverSettings
      else AngularProjection JointSettings)"

definition GetLinearSoftAccelerationMode :: "FPBDJointSolverSettings \<Rightarrow> FPBDJointSettings \<Rightarrow> bool" where
  "GetLinearSoftAccelerationMode SolverSettings JointSettings =
     (LinearSoftForceMode JointSettings = Acceleration)"

definition GetAngularSoftAccelerationMode :: "FPBDJointSolverSettings \<Rightarrow> FPBDJointSettings \<Rightarrow> bool" where
  "GetAngularSoftAccelerationMode SolverSettings JointSettings =
     (AngularSoftForceMode JointSettings = Acceleration)"

definition GetDriveAccelerationMode :: "FPBDJointSolverSettings \<Rightarrow> FPBDJointSettings \<Rightarrow> bool" where
  "GetDriveAccelerationMode SolverSettings JointSettings =
     (AngularDriveForceMode JointSettings = Acceleration)"

definition GetAngularPositionCorrection :: "FPBDJointSolverSettings \<Rightarrow> FPBDJointSettings \<Rightarrow> real" where
  "GetAngularPositionCorrection SolverSettings JointSettings =
     (let bPositionCorrectionEnabled =
            (At (LinearMotionTypes JointSettings) 0 = Locked
             \<and> At (LinearMotionTypes JointSettings) 1 = Locked
             \<and> At (LinearMotionTypes JointSettings) 2 = Locked)
      in if bPositionCorrectionEnabled
         then AngularConstraintPositionCorrection SolverSettings
         else 0)"

subsection \<open>Engine constants and vector arithmetic\<close>

text \<open>Modelled from the spec: the engine macros \<^verbatim>\<open>SMALL_NUMBER\<close> (\<^verbatim>\<open>1.e-8f\<close>) and
  \<^verbatim>\<open>KINDA_SMALL_NUMBER\<close> (\<^verbatim>\<open>1.e-4f\<close>) are declared outside the translation unit; they
  are the small-magnitude thresholds of the spec's degenerate-case handling.\<close>

definition SMALL_NUMBER :: real where
  "SMALL_NUMBER = 1 / 10 ^ 8"


abbreviation Vec3 :: "real \<Rightarrow> real \<Rightarrow> real \<Rightarrow> FVec3" where
  "Vec3 x y z \<equiv> \<lparr> X = x, Y = y, Z = z \<rparr>"

abbreviation Quat :: "real \<Rightarrow> real \<Rightarrow> real \<Rightarrow> real \<Rightarrow> FRotation3" where
  "Quat x y z w \<equiv> \<lparr> FRotation3.X = x, FRotation3.Y = y, FRotation3.Z = z, W = w \<rparr>"


definition VecSub :: "FVec3 \<Rightarrow> FVec3 \<Rightarrow> FVec3" where
  "VecSub a b = Vec3 (X a - X b) (Y a - Y b) (Z a - Z b)"

definition VecScale :: "real \<Rightarrow> FVec3 \<Rightarrow> FVec3" where
  "VecScale s a = Vec3 (s * X a) (s * Y a) (s * Z a)"

definition VecDiv :: "FVec3 \<Rightarrow> real \<Rightarrow> FVec3" where
  "VecDiv a s = Vec3 (X a / s) (Y a / s) (Z a / s)"


definition CrossProduct :: "FVec3 \<Rightarrow> FVec3 \<Rightarrow> FVec3" where
  "CrossProduct a b =
     Vec3 (Y a * Z b - Z a * Y b) (Z a * X b - X a * Z b) (X a * Y b - Y a * X b)"

definition Size :: "FVec3 \<Rightarrow> real" where
  "Size a = sqrt (X a * X a + Y a * Y a + Z a * Z a)"

definition Min_FVec3 :: "FVec3 \<Rightarrow> real" where
  "Min_FVec3 a = min (X a) (min (Y a) (Z a))"

definition Max_FVec3 :: "FVec3 \<Rightarrow> real" where
  "Max_FVec3 a = max (X a) (max (Y a) (Z a))"

definition Lerp :: "real \<Rightarrow> real \<Rightarrow> real \<Rightarrow> real" where
  "Lerp A B Alpha = A + Alpha * (B - A)"

subsection \<open>Quaternion arithmetic\<close>

text \<open>Modelled from the spec: the quaternion type's \<^verbatim>\<open>Inverse\<close>, \<^verbatim>\<open>operator*\<close> (on
  quaternions and on vectors), \<^verbatim>\<open>GetNormalized\<close> and \<^verbatim>\<open>GetAngle\<close> are declared outside the
  translation unit. The inverse of a unit quaternion is its conjugate; the product is the
  Hamilton product, so that \<open>QuatMul A B\<close> rotates by \<open>B\<close> first and then by \<open>A\<close>; a vector
  is rotated by \<open>v + W t + q \<times> t\<close> with \<open>t = 2 (q \<times> v)\<close>. Normalisation divides by the
  length and, as the spec's error handling has it for near-zero lengths, falls back to the
  identity (zero angle) when the squared length is below the small-magnitude threshold.
  The rotation angle is \<open>2 acos W\<close>, the argument of the inverse cosine being clamped to
  \<open>[-1, 1]\<close> as the spec states for inverse trigonometric functions.\<close>

definition Identity :: FRotation3 where
  "Identity = Quat 0 0 0 1"

definition Inverse :: "FRotation3 \<Rightarrow> FRotation3" where
  "Inverse q = Quat (- FRotation3.X q) (- FRotation3.Y q) (- FRotation3.Z q) (W q)"

definition QuatMul :: "FRotation3 \<Rightarrow> FRotation3 \<Rightarrow> FRotation3" where
  "QuatMul a b =
     Quat (W a * FRotation3.X b + FRotation3.X a * W b
             + FRotation3.Y a * FRotation3.Z b - FRotation3.Z a * FRotation3.Y b)
          (W a * FRotation3.Y b - FRotation3.X a * FRotation3.Z b
             + FRotation3.Y a * W b + FRotation3.Z a * FRotation3.X b)
          (W a * FRotation3.Z b + FRotation3.X a * FRotation3.Y b
             - FRotation3.Y a * FRotation3.X b + FRotation3.Z a * W b)
          (W a * W b - FRotation3.X a * FRotation3.X b
             - FRotation3.Y a * FRotation3.Y b - FRotation3.Z a * FRotation3.Z b)"


definition SizeSquared :: "FRotation3 \<Rightarrow> real" where
  "SizeSquared q =
     FRotation3.X q * FRotation3.X q + FRotation3.Y q * FRotation3.Y q
       + FRotation3.Z q * FRotation3.Z q + W q * W q"

definition GetNormalized :: "FRotation3 \<Rightarrow> FRotation3" where
  "GetNormalized q =
     (let SquareSum = SizeSquared q
      in if SquareSum \<ge> SMALL_NUMBER
         then (let Scale = 1 / sqrt SquareSum
               in Quat (FRotation3.X q * Scale) (FRotation3.Y q * Scale)
                       (FRotation3.Z q * Scale) (W q * Scale))
         else Identity)"

definition Acos :: "real \<Rightarrow> real" where
  "Acos x = arccos (if x < -1 then -1 else if x < 1 then x else 1)"

definition GetAngle :: "FRotation3 \<Rightarrow> real" where
  "GetAngle q = 2 * Acos (W q)"


text \<open>Modelled from the spec: \<^verbatim>\<open>ToSwingTwistX\<close> of the rotation type is declared outside
  the translation unit. Under the fixed twist-axis convention (local X) it factors a
  rotation into a twist quaternion about that axis, the normalised \<open>(X, 0, 0, W)\<close> part
  (the identity when there is no X component), and a swing quaternion representing the
  remaining rotation, twist first: \<open>Swing = R * Twist\<^sup>-\<^sup>1\<close>.\<close>

definition ToSwingTwistX :: "FRotation3 \<Rightarrow> FRotation3 \<times> FRotation3" where
  "ToSwingTwistX q =
     (let OutTwist = (if FRotation3.X q \<noteq> 0
                      then GetNormalized (Quat (FRotation3.X q) 0 0 (W q))
                      else Identity);
          OutSwing = QuatMul q (Inverse OutTwist)
      in (OutSwing, OutTwist))"


subsection \<open>Rotation decomposition and twist/swing angles\<close>

text \<open>\<^verbatim>\<open>DecomposeSwingTwistLocal\<close> returns the pair \<open>(R01Swing, R01Twist)\<close>.\<close>

definition DecomposeSwingTwistLocal :: "FRotation3 \<Rightarrow> FRotation3 \<Rightarrow> FRotation3 \<times> FRotation3" where
  "DecomposeSwingTwistLocal R0 R1 =
     (let R01 = QuatMul (Inverse R0) R1
      in ToSwingTwistX R01)"


text \<open>The \<^verbatim>\<open>ensure\<close> of \<^verbatim>\<open>GetTwistAngle\<close> only reports; it does not change the result.\<close>

definition GetTwistAngle :: "FRotation3 \<Rightarrow> real" where
  "GetTwistAngle InTwist =
     (let Twist = GetNormalized InTwist;
          Angle0 = GetAngle Twist;
          Angle1 = (if Angle0 > pi then Angle0 - 2 * pi else Angle0);
          Angle2 = (if FRotation3.X Twist < 0 then - Angle1 else Angle1)
      in Angle2)"


subsection \<open>Mass and inertia conditioning\<close>

text \<open>\<^verbatim>\<open>ConditionInertia\<close> divides by \<open>IMax - IMin\<close>. The divisor is zero only when
  all components are equal and \<open>0 < MaxRatio < 1\<close>, where the program computes \<open>0 / 0\<close>;
  no statement below is about that input.\<close>

definition ConditionInertia :: "FVec3 \<Rightarrow> real \<Rightarrow> FVec3" where
  "ConditionInertia InI MaxRatio =
     (let IMin = Min_FVec3 InI;
          IMax = Max_FVec3 InI
      in if MaxRatio > 0 \<and> IMin > 0
         then (let Ratio = IMax / IMin
               in if Ratio > MaxRatio
                  then (let MinIMin = IMax / MaxRatio
                        in Vec3 (Lerp MinIMin IMax ((X InI - IMin) / (IMax - IMin)))
                                (Lerp MinIMin IMax ((Y InI - IMin) / (IMax - IMin)))
                                (Lerp MinIMin IMax ((Z InI - IMin) / (IMax - IMin))))
                  else InI)
         else InI)"

definition ConditionParentInertia :: "FVec3 \<Rightarrow> FVec3 \<Rightarrow> real \<Rightarrow> FVec3" where
  "ConditionParentInertia IParent IChild MinRatio =
     (if MinRatio > 0
      then (let IParentMax = Max_FVec3 IParent;
                IChildMax = Max_FVec3 IChild
            in if IParentMax > 0 \<and> IChildMax > 0
               then (let Ratio = IParentMax / IChildMax
                     in if Ratio < MinRatio
                        then (let Multiplier = MinRatio / Ratio
                              in VecScale Multiplier IParent)
                        else IParent)
               else IParent)
      else IParent)"

definition ConditionParentMass :: "real \<Rightarrow> real \<Rightarrow> real \<Rightarrow> real" where
  "ConditionParentMass MParent MChild MinRatio =
     (if MinRatio > 0 \<and> MParent > 0 \<and> MChild > 0
      then (let Ratio = MParent / MChild
            in if Ratio < MinRatio
               then (let Multiplier = MinRatio / Ratio
                     in MParent * Multiplier)
               else MParent)
      else MParent)"

text \<open>The reciprocal of the three components, as in
  \<^verbatim>\<open>FVec3(1.0f / I.X, 1.0f / I.Y, 1.0f / I.Z)\<close>. A zero component has no finite
  reciprocal in the program; statements that depend on one assume positive components.\<close>

definition Reciprocal :: "FVec3 \<Rightarrow> FVec3" where
  "Reciprocal I = Vec3 (1 / X I) (1 / Y I) (1 / Z I)"

text \<open>\<^verbatim>\<open>ConditionInverseMassAndInertia\<close> updates its first four arguments in place; the
  model returns their final values in a record.\<close>

record FConditionedMassAndInertia =
  InvMParent :: real
  InvMChild :: real
  InvIParent :: FVec3
  InvIChild :: FVec3

definition ConditionInverseMassAndInertia ::
  "real \<Rightarrow> real \<Rightarrow> FVec3 \<Rightarrow> FVec3 \<Rightarrow> real \<Rightarrow> real \<Rightarrow> FConditionedMassAndInertia" where
  "ConditionInverseMassAndInertia InOutInvMParent InOutInvMChild InOutInvIParent InOutInvIChild
       MinParentMassRatio MaxInertiaRatio =
     (let (MParent1, IParent1) =
            (if InOutInvMParent > 0
             then (1 / InOutInvMParent,
                   ConditionInertia (Reciprocal InOutInvIParent) MaxInertiaRatio)
             else (0, Vec3 0 0 0));
          (MChild1, IChild1) =
            (if InOutInvMChild > 0
             then (1 / InOutInvMChild,
                   ConditionInertia (Reciprocal InOutInvIChild) MaxInertiaRatio)
             else (0, Vec3 0 0 0));
          (MParent2, IParent2) =
            (if InOutInvMParent > 0 \<and> InOutInvMChild > 0
             then (ConditionParentMass MParent1 MChild1 MinParentMassRatio,
                   ConditionParentInertia IParent1 IChild1 MinParentMassRatio)
             else (MParent1, IParent1));
          (OutInvMParent, OutInvIParent) =
            (if InOutInvMParent > 0
             then (1 / MParent2, Reciprocal IParent2)
             else (InOutInvMParent, InOutInvIParent));
          (OutInvMChild, OutInvIChild) =
            (if InOutInvMChild > 0
             then (1 / MChild1, Reciprocal IChild1)
             else (InOutInvMChild, InOutInvIChild))
      in \<lparr> InvMParent = OutInvMParent, InvMChild = OutInvMChild,
           InvIParent = OutInvIParent, InvIChild = OutInvIChild \<rparr>)"

subsection \<open>Linear limit shapes\<close>

definition GetSphereLimitedPositionError :: "FVec3 \<Rightarrow> real \<Rightarrow> FVec3" where
  "GetSphereLimitedPositionError CX Radius =
     (let CXLen = Size CX
      in if CXLen < Radius then Vec3 0 0 0
         else if CXLen > SMALL_NUMBER
         then (let Dir = VecDiv CX CXLen in VecSub CX (VecScale Radius Dir))
         else CX)"





subsection \<open>Binary32 arithmetic\<close>

text \<open>The program computes in binary32 (\<^verbatim>\<open>FReal\<close> is \<^verbatim>\<open>float\<close>): every arithmetic operation
  returns the binary32 value nearest to its exact result, ties going to the even
  significand. \<open>round32\<close> is that rounding on the reals: a non-zero \<open>x\<close> with
  \<open>2\<^sup>k \<le> |x| < 2\<^sup>k\<^sup>+\<^sup>1\<close> is rounded to a multiple of \<open>2\<^sup>k\<^sup>-\<^sup>2\<^sup>3\<close>, the exponent \<open>k\<close> not
  going below \<open>-126\<close> (subnormal numbers). Overflow to infinity, NaN and the sign of zero
  are not represented; the functions below are evaluated only where none of them occurs.
  The definitions of this subsection repeat the functions above with every arithmetic
  operation rounded; comparisons and negation are exact in binary32.\<close>

definition rne :: "real \<Rightarrow> int" where
  "rne x =
     (let f = \<lfloor>x\<rfloor>; d = x - of_int f
      in if d < 1 / 2 then f
         else if d > 1 / 2 then f + 1
         else if even f then f else f + 1)"

definition expo32 :: "real \<Rightarrow> int" where
  "expo32 x = max \<lfloor>log 2 \<bar>x\<bar>\<rfloor> (- 126)"

definition round32 :: "real \<Rightarrow> real" where
  "round32 x =
     (if x = 0 then 0
      else of_int (rne (x / 2 powi (expo32 x - 23))) * 2 powi (expo32 x - 23))"

definition Add32 :: "real \<Rightarrow> real \<Rightarrow> real" where
  "Add32 a b = round32 (a + b)"

definition Sub32 :: "real \<Rightarrow> real \<Rightarrow> real" where
  "Sub32 a b = round32 (a - b)"

definition Mul32 :: "real \<Rightarrow> real \<Rightarrow> real" where
  "Mul32 a b = round32 (a * b)"

definition Div32 :: "real \<Rightarrow> real \<Rightarrow> real" where
  "Div32 a b = round32 (a / b)"

definition Sqrt32 :: "real \<Rightarrow> real" where
  "Sqrt32 a = round32 (sqrt a)"

text \<open>The float literals \<^verbatim>\<open>1.e-8f\<close> and \<^verbatim>\<open>1.e-4f\<close>.\<close>

definition SMALL_NUMBER_f32 :: real where
  "SMALL_NUMBER_f32 = round32 SMALL_NUMBER"



definition VecSub_f32 :: "FVec3 \<Rightarrow> FVec3 \<Rightarrow> FVec3" where
  "VecSub_f32 a b = Vec3 (Sub32 (X a) (X b)) (Sub32 (Y a) (Y b)) (Sub32 (Z a) (Z b))"

definition VecScale_f32 :: "real \<Rightarrow> FVec3 \<Rightarrow> FVec3" where
  "VecScale_f32 s a = Vec3 (Mul32 s (X a)) (Mul32 s (Y a)) (Mul32 s (Z a))"

definition VecDiv_f32 :: "FVec3 \<Rightarrow> real \<Rightarrow> FVec3" where
  "VecDiv_f32 a s = Vec3 (Div32 (X a) s) (Div32 (Y a) s) (Div32 (Z a) s)"



definition Size_f32 :: "FVec3 \<Rightarrow> real" where
  "Size_f32 a =
     Sqrt32 (Add32 (Add32 (Mul32 (X a) (X a)) (Mul32 (Y a) (Y a))) (Mul32 (Z a) (Z a)))"

definition Lerp_f32 :: "real \<Rightarrow> real \<Rightarrow> real \<Rightarrow> real" where
  "Lerp_f32 A B Alpha = Add32 A (Mul32 Alpha (Sub32 B A))"












definition ConditionInertia_f32 :: "FVec3 \<Rightarrow> real \<Rightarrow> FVec3" where
  "ConditionInertia_f32 InI MaxRatio =
     (let IMin = Min_FVec3 InI;
          IMax = Max_FVec3 InI
      in if MaxRatio > 0 \<and> IMin > 0
         then (let Ratio = Div32 IMax IMin
               in if Ratio > MaxRatio
                  then (let MinIMin = Div32 IMax MaxRatio
                        in Vec3 (Lerp_f32 MinIMin IMax
                                   (Div32 (Sub32 (X InI) IMin) (Sub32 IMax IMin)))
                                (Lerp_f32 MinIMin IMax
                                   (Div32 (Sub32 (Y InI) IMin) (Sub32 IMax IMin)))
                                (Lerp_f32 MinIMin IMax
                                   (Div32 (Sub32 (Z InI) IMin) (Sub32 IMax IMin))))
                  else InI)
         else InI)"





definition GetSphereLimitedPositionError_f32 :: "FVec3 \<Rightarrow> real \<Rightarrow> FVec3" where
  "GetSphereLimitedPositionError_f32 CX Radius =
     (let CXLen = Size_f32 CX
      in if CXLen < Radius then Vec3 0 0 0
         else if CXLen > SMALL_NUMBER_f32
         then (let Dir = VecDiv_f32 CX CXLen in VecSub_f32 CX (VecScale_f32 Radius Dir))
         else CX)"




section \<open>Properties\<close>

subsection \<open>Settings resolver\<close>

lemmas resolver_defs =
  GetLinearStiffness_def GetSoftLinearStiffness_def GetSoftLinearDamping_def
  GetTwistStiffness_def GetSoftTwistStiffness_def GetSoftTwistDamping_def
  GetSwingStiffness_def GetSoftSwingStiffness_def GetSoftSwingDamping_def
  GetLinearDriveStiffness_def GetLinearDriveDamping_def
  GetAngularTwistDriveStiffness_def GetAngularTwistDriveDamping_def
  GetAngularSwingDriveStiffness_def GetAngularSwingDriveDamping_def
  GetAngularSLerpDriveStiffness_def GetAngularSLerpDriveDamping_def
  GetLinearProjection_def GetAngularProjection_def

text \<open>C1, as stated, fails: the claim counts the linear drive getters among the getters
  that return \<open>0\<close> when the joint's drive flags are false. With all six drive flags of the
  joint false, \<^verbatim>\<open>GetLinearDriveStiffness\<close> still returns a positive solver value and
  \<^verbatim>\<open>GetLinearDriveDamping\<close> the joint's value.\<close>

theorem linear_drive_ungated:
  "\<not> bAngularTwistPositionDriveEnabled ZeroJointSettings
   \<and> \<not> bAngularTwistVelocityDriveEnabled ZeroJointSettings
   \<and> \<not> bAngularSwingPositionDriveEnabled ZeroJointSettings
   \<and> \<not> bAngularSwingVelocityDriveEnabled ZeroJointSettings
   \<and> \<not> bAngularSLerpPositionDriveEnabled ZeroJointSettings
   \<and> \<not> bAngularSLerpVelocityDriveEnabled ZeroJointSettings
   \<and> GetLinearDriveStiffness
         (ZeroSolverSettings\<lparr>FPBDJointSolverSettings.LinearDriveStiffness := 5\<rparr>)
         ZeroJointSettings = 5
   \<and> GetLinearDriveDamping ZeroSolverSettings (ZeroJointSettings\<lparr>LinearDriveDamping := 2\<rparr>) = 2"
  by (simp add: GetLinearDriveStiffness_def GetLinearDriveDamping_def
      ZeroSolverSettings_def ZeroJointSettings_def)

text \<open>C1, amended: each of the six angular drive getters (twist, swing and slerp;
  stiffness and damping) returns \<open>0\<close> when the joint's position-drive flag (for stiffness)
  or velocity-drive flag (for damping) of that sub-type is false, whatever the solver's and
  the joint's coefficients are. The two linear drive getters read no flag: they return the
  solver's value when it is positive and the joint's value otherwise.\<close>

theorem angular_drive_gated:
  "(\<not> bAngularTwistPositionDriveEnabled J \<longrightarrow> GetAngularTwistDriveStiffness S J = 0)
   \<and> (\<not> bAngularTwistVelocityDriveEnabled J \<longrightarrow> GetAngularTwistDriveDamping S J = 0)
   \<and> (\<not> bAngularSwingPositionDriveEnabled J \<longrightarrow> GetAngularSwingDriveStiffness S J = 0)
   \<and> (\<not> bAngularSwingVelocityDriveEnabled J \<longrightarrow> GetAngularSwingDriveDamping S J = 0)
   \<and> (\<not> bAngularSLerpPositionDriveEnabled J \<longrightarrow> GetAngularSLerpDriveStiffness S J = 0)
   \<and> (\<not> bAngularSLerpVelocityDriveEnabled J \<longrightarrow> GetAngularSLerpDriveDamping S J = 0)
   \<and> GetLinearDriveStiffness S J =
       (if FPBDJointSolverSettings.LinearDriveStiffness S > 0
        then FPBDJointSolverSettings.LinearDriveStiffness S else LinearDriveStiffness J)
   \<and> GetLinearDriveDamping S J =
       (if FPBDJointSolverSettings.LinearDriveDamping S > 0
        then FPBDJointSolverSettings.LinearDriveDamping S else LinearDriveDamping J)"
  by (simp add: resolver_defs)

theorem angular_drive_gated_witness:
  "GetAngularTwistDriveStiffness
      (ZeroSolverSettings\<lparr>FPBDJointSolverSettings.AngularDriveStiffness := 5\<rparr>)
      (ZeroJointSettings\<lparr>AngularDriveStiffness := 2\<rparr>) = 0
   \<and> GetAngularTwistDriveDamping
      (ZeroSolverSettings\<lparr>FPBDJointSolverSettings.AngularDriveDamping := 5\<rparr>)
      (ZeroJointSettings\<lparr>AngularDriveDamping := 2\<rparr>) = 0
   \<and> GetAngularSLerpDriveStiffness
      (ZeroSolverSettings\<lparr>FPBDJointSolverSettings.AngularDriveStiffness := 5\<rparr>)
      (ZeroJointSettings\<lparr>AngularDriveStiffness := 2\<rparr>) = 0"
  using angular_drive_gated
          [of "ZeroJointSettings\<lparr>AngularDriveStiffness := 2\<rparr>"
              "ZeroSolverSettings\<lparr>FPBDJointSolverSettings.AngularDriveStiffness := 5\<rparr>"]
        angular_drive_gated
          [of "ZeroJointSettings\<lparr>AngularDriveDamping := 2\<rparr>"
              "ZeroSolverSettings\<lparr>FPBDJointSolverSettings.AngularDriveDamping := 5\<rparr>"]
  by (simp add: ZeroJointSettings_def)

text \<open>C4: every coefficient getter with a solver-wide counterpart returns the solver's
  value when that value is strictly positive and the joint's value otherwise; for the six
  angular drive getters this holds when the joint's flag for that getter is true.\<close>

theorem override_if_positive:
  "GetLinearStiffness S J =
     (if FPBDJointSolverSettings.Stiffness S > 0
      then FPBDJointSolverSettings.Stiffness S else Stiffness J)
   \<and> GetSoftLinearStiffness S J =
     (if FPBDJointSolverSettings.SoftLinearStiffness S > 0
      then FPBDJointSolverSettings.SoftLinearStiffness S else SoftLinearStiffness J)
   \<and> GetSoftLinearDamping S J =
     (if FPBDJointSolverSettings.SoftLinearDamping S > 0
      then FPBDJointSolverSettings.SoftLinearDamping S else SoftLinearDamping J)
   \<and> GetTwistStiffness S J =
     (if FPBDJointSolverSettings.Stiffness S > 0
      then FPBDJointSolverSettings.Stiffness S else Stiffness J)
   \<and> GetSoftTwistStiffness S J =
     (if FPBDJointSolverSettings.SoftTwistStiffness S > 0
      then FPBDJointSolverSettings.SoftTwistStiffness S else SoftTwistStiffness J)
   \<and> GetSoftTwistDamping S J =
     (if FPBDJointSolverSettings.SoftTwistDamping S > 0
      then FPBDJointSolverSettings.SoftTwistDamping S else SoftTwistDamping J)
   \<and> GetSwingStiffness S J =
     (if FPBDJointSolverSettings.Stiffness S > 0
      then FPBDJointSolverSettings.Stiffness S else Stiffness J)
   \<and> GetSoftSwingStiffness S J =
     (if FPBDJointSolverSettings.SoftSwingStiffness S > 0
      then FPBDJointSolverSettings.SoftSwingStiffness S else SoftSwingStiffness J)
   \<and> GetSoftSwingDamping S J =
     (if FPBDJointSolverSettings.SoftSwingDamping S > 0
      then FPBDJointSolverSettings.SoftSwingDamping S else SoftSwingDamping J)
   \<and> GetLinearDriveStiffness S J =
     (if FPBDJointSolverSettings.LinearDriveStiffness S > 0
      then FPBDJointSolverSettings.LinearDriveStiffness S else LinearDriveStiffness J)
   \<and> GetLinearDriveDamping S J =
     (if FPBDJointSolverSettings.LinearDriveDamping S > 0
      then FPBDJointSolverSettings.LinearDriveDamping S else LinearDriveDamping J)
   \<and> (bAngularTwistPositionDriveEnabled J \<longrightarrow> GetAngularTwistDriveStiffness S J =
     (if FPBDJointSolverSettings.AngularDriveStiffness S > 0
      then FPBDJointSolverSettings.AngularDriveStiffness S else AngularDriveStiffness J))
   \<and> (bAngularTwistVelocityDriveEnabled J \<longrightarrow> GetAngularTwistDriveDamping S J =
     (if FPBDJointSolverSettings.AngularDriveDamping S > 0
      then FPBDJointSolverSettings.AngularDriveDamping S else AngularDriveDamping J))
   \<and> (bAngularSwingPositionDriveEnabled J \<longrightarrow> GetAngularSwingDriveStiffness S J =
     (if FPBDJointSolverSettings.AngularDriveStiffness S > 0
      then FPBDJointSolverSettings.AngularDriveStiffness S else AngularDriveStiffness J))
   \<and> (bAngularSwingVelocityDriveEnabled J \<longrightarrow> GetAngularSwingDriveDamping S J =
     (if FPBDJointSolverSettings.AngularDriveDamping S > 0
      then FPBDJointSolverSettings.AngularDriveDamping S else AngularDriveDamping J))
   \<and> (bAngularSLerpPositionDriveEnabled J \<longrightarrow> GetAngularSLerpDriveStiffness S J =
     (if FPBDJointSolverSettings.AngularDriveStiffness S > 0
      then FPBDJointSolverSettings.AngularDriveStiffness S else AngularDriveStiffness J))
   \<and> (bAngularSLerpVelocityDriveEnabled J \<longrightarrow> GetAngularSLerpDriveDamping S J =
     (if FPBDJointSolverSettings.AngularDriveDamping S > 0
      then FPBDJointSolverSettings.AngularDriveDamping S else AngularDriveDamping J))
   \<and> GetLinearProjection S J =
     (if FPBDJointSolverSettings.LinearProjection S > 0
      then FPBDJointSolverSettings.LinearProjection S else LinearProjection J)
   \<and> GetAngularProjection S J =
     (if FPBDJointSolverSettings.AngularProjection S > 0
      then FPBDJointSolverSettings.AngularProjection S else AngularProjection J)"
  by (simp add: resolver_defs)

theorem override_if_positive_witness:
  "GetAngularTwistDriveStiffness
      (ZeroSolverSettings\<lparr>FPBDJointSolverSettings.AngularDriveStiffness := 5\<rparr>)
      (ZeroJointSettings\<lparr>AngularDriveStiffness := 2, bAngularTwistPositionDriveEnabled := True\<rparr>) = 5
   \<and> GetAngularSwingDriveDamping
      (ZeroSolverSettings\<lparr>FPBDJointSolverSettings.AngularDriveDamping := - 1\<rparr>)
      (ZeroJointSettings\<lparr>AngularDriveDamping := 2, bAngularSwingVelocityDriveEnabled := True\<rparr>) = 2
   \<and> GetAngularSLerpDriveStiffness ZeroSolverSettings
      (ZeroJointSettings\<lparr>AngularDriveStiffness := 2, bAngularSLerpPositionDriveEnabled := True\<rparr>) = 2"
  using override_if_positive
          [of "ZeroSolverSettings\<lparr>FPBDJointSolverSettings.AngularDriveStiffness := 5\<rparr>"
              "ZeroJointSettings\<lparr>AngularDriveStiffness := 2, bAngularTwistPositionDriveEnabled := True\<rparr>"]
        override_if_positive
          [of "ZeroSolverSettings\<lparr>FPBDJointSolverSettings.AngularDriveDamping := - 1\<rparr>"
              "ZeroJointSettings\<lparr>AngularDriveDamping := 2, bAngularSwingVelocityDriveEnabled := True\<rparr>"]
        override_if_positive
          [of ZeroSolverSettings
              "ZeroJointSettings\<lparr>AngularDriveStiffness := 2, bAngularSLerpPositionDriveEnabled := True\<rparr>"]
  by (simp add: ZeroSolverSettings_def ZeroJointSettings_def)


subsection \<open>Binary32 rounding\<close>

text \<open>How \<open>round32\<close> is evaluated: for \<open>2\<^sup>2\<^sup>3 \<le> |x| 2\<^sup>m < 2\<^sup>2\<^sup>4\<close> the binary32 values
  around \<open>x\<close> are the multiples of \<open>2\<^sup>-\<^sup>m\<close>, and \<open>x\<close> is rounded to the nearest one.\<close>

lemma rne_nearest:
  assumes "of_int n - 1 / 2 < x" and "x < of_int n + 1 / 2"
  shows "rne x = n"
proof -
  have "\<lfloor>x\<rfloor> = n \<or> \<lfloor>x\<rfloor> = n - 1"
    using assms by (auto simp: floor_eq_iff)
  then show ?thesis
  proof
    assume f: "\<lfloor>x\<rfloor> = n"
    then show ?thesis using assms by (simp add: rne_def Let_def)
  next
    assume f: "\<lfloor>x\<rfloor> = n - 1"
    then show ?thesis using assms by (simp add: rne_def Let_def)
  qed
qed

lemma rne_of_int: "rne (of_int n) = n"
  by (simp add: rne_def)

lemma expo32_eq:
  assumes lo: "2 powi k \<le> \<bar>x\<bar>" and hi: "\<bar>x\<bar> < 2 powi (k + 1)" and k: "- 126 \<le> k"
  shows "expo32 x = k"
proof -
  have "(0::real) < 2 powi k" by (rule zero_less_power_int) simp
  then have pos: "0 < \<bar>x\<bar>" using lo by linarith
  have "(2::real) powr of_int k = 2 powi k" "(2::real) powr (of_int k + 1) = 2 powi (k + 1)"
    using powr_real_of_int' [of "2::real" k] powr_real_of_int' [of "2::real" "k + 1"]
    by simp_all
  then have "\<lfloor>log 2 \<bar>x\<bar>\<rfloor> = k"
    using lo hi pos by (simp add: floor_log_eq_powr_iff)
  then show ?thesis using k by (simp add: expo32_def)
qed

lemma round32_nearest:
  assumes "2 powi k \<le> \<bar>x\<bar>" and "\<bar>x\<bar> < 2 powi (k + 1)" and "- 126 \<le> k"
    and "of_int n - 1 / 2 < x / 2 powi (k - 23)" and "x / 2 powi (k - 23) < of_int n + 1 / 2"
  shows "round32 x = of_int n * 2 powi (k - 23)"
proof -
  have e: "expo32 x = k" using assms(1-3) by (rule expo32_eq)
  have "(0::real) < 2 powi k" by (rule zero_less_power_int) simp
  then have "0 < \<bar>x\<bar>" using assms(1) by linarith
  then have "x \<noteq> 0" by auto
  then show ?thesis
    by (simp add: round32_def e rne_nearest [OF assms(4,5)])
qed

lemma round32_exact:
  assumes "2 powi k \<le> \<bar>x\<bar>" and "\<bar>x\<bar> < 2 powi (k + 1)" and "- 126 \<le> k"
    and "x = of_int n * 2 powi (k - 23)"
  shows "round32 x = x"
proof -
  have e: "expo32 x = k" using assms(1-3) by (rule expo32_eq)
  have q: "x / 2 powi (k - 23) = of_int n" using assms(4) by simp
  have "round32 x = (if x = 0 then 0 else of_int (rne (of_int n)) * 2 powi (k - 23))"
    unfolding round32_def e q ..
  also have "\<dots> = (if x = 0 then 0 else x)"
    unfolding rne_of_int assms(4) [symmetric] ..
  finally show ?thesis by simp
qed


lemma powi_ulp: "(2::real) powi (23 - int m - 23) = 1 / 2 ^ m"
  by (simp add: power_int_minus_divide)

lemma powi_lo: "(2::real) powi (23 - int m) = 2 ^ 23 / 2 ^ m"
  using power_int_diff [of "2::real" 23 "int m"] by simp

lemma powi_hi: "(2::real) powi (23 - int m + 1) = 2 ^ 24 / 2 ^ m"
  using power_int_diff [of "2::real" 24 "int m"] by (simp add: algebra_simps)

lemma round32_near:
  assumes m: "m \<le> 149"
    and lo: "2 ^ 23 \<le> \<bar>x\<bar> * 2 ^ m" and hi: "\<bar>x\<bar> * 2 ^ m < 2 ^ 24"
    and n1: "of_int n - 1 / 2 < x * 2 ^ m" and n2: "x * 2 ^ m < of_int n + 1 / 2"
  shows "round32 x = of_int n / 2 ^ m"
proof -
  have a: "2 powi (23 - int m) \<le> \<bar>x\<bar>"
    unfolding powi_lo using lo by (simp add: field_simps)
  have b: "\<bar>x\<bar> < 2 powi (23 - int m + 1)"
    unfolding powi_hi using hi by (simp add: field_simps)
  have c: "- 126 \<le> 23 - int m" using m by simp
  have d: "of_int n - 1 / 2 < x / 2 powi (23 - int m - 23)"
    and e: "x / 2 powi (23 - int m - 23) < of_int n + 1 / 2"
    unfolding powi_ulp using n1 n2 by simp_all
  show ?thesis
    using round32_nearest [OF a b c d e] unfolding powi_ulp by simp
qed

lemma round32_same:
  assumes m: "m \<le> 149"
    and lo: "2 ^ 23 \<le> \<bar>x\<bar> * 2 ^ m" and hi: "\<bar>x\<bar> * 2 ^ m < 2 ^ 24"
    and n: "x * 2 ^ m = of_int n"
  shows "round32 x = x"
proof -
  have a: "2 powi (23 - int m) \<le> \<bar>x\<bar>"
    unfolding powi_lo using lo by (simp add: field_simps)
  have b: "\<bar>x\<bar> < 2 powi (23 - int m + 1)"
    unfolding powi_hi using hi by (simp add: field_simps)
  have c: "- 126 \<le> 23 - int m" using m by simp
  have d: "x = of_int n * 2 powi (23 - int m - 23)"
    unfolding powi_ulp using n by (simp add: field_simps)
  show ?thesis by (rule round32_exact [OF a b c d])
qed


lemma round32_zero: "round32 0 = 0"
  by (simp add: round32_def)

lemma rne_half: "rne (of_int f + 1 / 2) = (if even f then f else f + 1)"
proof -
  have "\<lfloor>of_int f + (1 / 2 :: real)\<rfloor> = f" by (simp add: floor_eq_iff)
  then show ?thesis by (simp add: rne_def Let_def)
qed

lemma round32_tie:
  assumes m: "m \<le> 149"
    and lo: "2 ^ 23 \<le> \<bar>x\<bar> * 2 ^ m" and hi: "\<bar>x\<bar> * 2 ^ m < 2 ^ 24"
    and t: "x * 2 ^ m = of_int f + 1 / 2"
  shows "round32 x = of_int (if even f then f else f + 1) / 2 ^ m"
proof -
  have a: "2 powi (23 - int m) \<le> \<bar>x\<bar>"
    unfolding powi_lo using lo by (simp add: field_simps)
  have b: "\<bar>x\<bar> < 2 powi (23 - int m + 1)"
    unfolding powi_hi using hi by (simp add: field_simps)
  have c: "- 126 \<le> 23 - int m" using m by simp
  have e: "expo32 x = 23 - int m" using a b c by (rule expo32_eq)
  have nz: "x \<noteq> 0" using lo by auto
  have y: "x / 2 powi (23 - int m - 23) = of_int f + 1 / 2"
    unfolding powi_ulp using t by simp
  have "round32 x = (if x = 0 then 0
                     else of_int (rne (of_int f + 1 / 2)) * 2 powi (23 - int m - 23))"
    unfolding round32_def e y ..
  then show ?thesis unfolding rne_half powi_ulp using nz by simp
qed

lemmas ops32 = Add32_def Sub32_def Mul32_def Div32_def Sqrt32_def








subsection \<open>Quaternion facts\<close>

lemma GetAngle_bounds: "0 \<le> GetAngle q \<and> GetAngle q \<le> 2 * pi"
proof -
  define c where "c = (if W q < -1 then -1 else if W q < 1 then W q else 1)"
  have "-1 \<le> c" "c \<le> 1" by (auto simp: c_def)
  then have "0 \<le> arccos c" "arccos c \<le> pi"
    by (simp_all add: arccos_lbound arccos_ubound)
  then show ?thesis by (simp add: GetAngle_def Acos_def c_def)
qed

lemma SizeSquared_GetNormalized: "SizeSquared (GetNormalized q) = 1"
proof (cases "SizeSquared q \<ge> SMALL_NUMBER")
  case True
  then have pos: "SizeSquared q > 0" by (simp add: SMALL_NUMBER_def)
  define s where "s = 1 / sqrt (SizeSquared q)"
  have ss: "s * s = 1 / SizeSquared q"
    using pos by (simp add: s_def)
  have sc: "SizeSquared (Quat (FRotation3.X q * r) (FRotation3.Y q * r)
                 (FRotation3.Z q * r) (W q * r)) = SizeSquared q * (r * r)" for r
    by (simp add: SizeSquared_def algebra_simps)
  have "GetNormalized q = Quat (FRotation3.X q * s) (FRotation3.Y q * s)
                 (FRotation3.Z q * s) (W q * s)"
    using True by (simp add: GetNormalized_def Let_def s_def)
  then have "SizeSquared (GetNormalized q) = SizeSquared q * (s * s)"
    by (simp only: sc)
  then show ?thesis using pos ss by simp
next
  case False
  then show ?thesis by (simp add: GetNormalized_def Let_def Identity_def SizeSquared_def)
qed

lemma QuatMul_Inverse_cancel:
  "SizeSquared t = 1 \<Longrightarrow> QuatMul (QuatMul q (Inverse t)) t = q"
proof -
  assume u: "SizeSquared t = 1"
  have e: "W t * W t = 1 - FRotation3.X t * FRotation3.X t - FRotation3.Y t * FRotation3.Y t
              - FRotation3.Z t * FRotation3.Z t"
    using u by (simp add: SizeSquared_def)
  have "QuatMul (QuatMul q (Inverse t)) t =
          Quat (FRotation3.X q * SizeSquared t) (FRotation3.Y q * SizeSquared t)
               (FRotation3.Z q * SizeSquared t) (W q * SizeSquared t)"
    by (simp add: QuatMul_def Inverse_def SizeSquared_def algebra_simps)
  then show ?thesis using u by simp
qed

lemma SizeSquared_twist: "SizeSquared (snd (ToSwingTwistX q)) = 1"
  by (simp add: ToSwingTwistX_def Let_def SizeSquared_GetNormalized)
     (simp add: Identity_def SizeSquared_def)

subsection \<open>Twist angle\<close>

text \<open>C2, as stated, fails: the twist quaternion \<open>(X, Y, Z, W) = (-1, 0, 0, 0)\<close>, a
  half turn whose twist-axis component is negative, has rotation angle \<open>\<pi>\<close>, which is
  not remapped, and the sign flip returns \<open>-\<pi>\<close>, outside the half-open interval
  \<open>(-\<pi>, \<pi>]\<close>.\<close>

theorem GetTwistAngle_minus_pi:
  "GetTwistAngle (Quat (- 1) 0 0 0) = - pi \<and> \<not> (- pi < GetTwistAngle (Quat (- 1) 0 0 0))"
  by (simp add: GetTwistAngle_def GetNormalized_def SizeSquared_def SMALL_NUMBER_def
      GetAngle_def Acos_def Let_def)

text \<open>C2, amended: in exact arithmetic, for every twist quaternion \<^verbatim>\<open>GetTwistAngle\<close>
  returns a value in the closed interval \<open>[-\<pi>, \<pi>]\<close>. The returned value is the rotation
  angle of the normalised twist, less \<open>2\<pi>\<close> when it exceeds \<open>\<pi>\<close>, with its sign flipped
  exactly when the normalised twist's X component is negative.\<close>

theorem GetTwistAngle_range:
  "- pi \<le> GetTwistAngle InTwist \<and> GetTwistAngle InTwist \<le> pi
   \<and> GetTwistAngle InTwist =
       (if FRotation3.X (GetNormalized InTwist) < 0 then - 1 else 1)
        * (if GetAngle (GetNormalized InTwist) > pi
           then GetAngle (GetNormalized InTwist) - 2 * pi
           else GetAngle (GetNormalized InTwist))"
proof -
  define T where "T = GetNormalized InTwist"
  have b: "0 \<le> GetAngle T" "GetAngle T \<le> 2 * pi" using GetAngle_bounds [of T] by simp_all
  have pp: "pi > 0" by simp
  show ?thesis
    unfolding GetTwistAngle_def Let_def T_def [symmetric]
    using b pp by (auto split: if_splits)
qed

subsection \<open>Swing/twist decomposition\<close>

text \<open>C3: for every pair of quaternions \<open>R0\<close>, \<open>R1\<close> (in particular every pair of unit
  quaternions, for which \<open>Inverse R0\<close> is \<open>R0\<^sup>-\<^sup>1\<close>), the product of the swing and the
  twist returned by \<^verbatim>\<open>DecomposeSwingTwistLocal\<close>, twist applied first, is exactly the
  relative rotation \<open>R01 = R0\<^sup>-\<^sup>1 R1\<close>; the twist is a unit quaternion about the X axis.
  No case is excluded, so half turns are covered.\<close>

theorem swing_twist_recompose:
  "QuatMul (fst (DecomposeSwingTwistLocal R0 R1)) (snd (DecomposeSwingTwistLocal R0 R1))
     = QuatMul (Inverse R0) R1
   \<and> FRotation3.Y (snd (DecomposeSwingTwistLocal R0 R1)) = 0
   \<and> FRotation3.Z (snd (DecomposeSwingTwistLocal R0 R1)) = 0
   \<and> SizeSquared (snd (DecomposeSwingTwistLocal R0 R1)) = 1"
proof -
  define q where "q = QuatMul (Inverse R0) R1"
  have d: "DecomposeSwingTwistLocal R0 R1 = ToSwingTwistX q"
    by (simp add: DecomposeSwingTwistLocal_def q_def)
  have u: "SizeSquared (snd (ToSwingTwistX q)) = 1" by (rule SizeSquared_twist)
  have f: "fst (ToSwingTwistX q) = QuatMul q (Inverse (snd (ToSwingTwistX q)))"
    by (simp add: ToSwingTwistX_def Let_def)
  have r: "QuatMul (fst (ToSwingTwistX q)) (snd (ToSwingTwistX q)) = q"
    unfolding f using u by (rule QuatMul_Inverse_cancel)
  have yz: "FRotation3.Y (snd (ToSwingTwistX q)) = 0 \<and> FRotation3.Z (snd (ToSwingTwistX q)) = 0"
    by (simp add: ToSwingTwistX_def Let_def GetNormalized_def Identity_def)
  show ?thesis using r u yz by (simp add: d q_def)
qed








subsection \<open>Vector facts\<close>

lemma Size_nonneg: "0 \<le> Size v"
  by (simp add: Size_def)

lemma Size_VecScale: "Size (VecScale k v) = \<bar>k\<bar> * Size v"
proof -
  have "(k * X v) * (k * X v) + (k * Y v) * (k * Y v) + (k * Z v) * (k * Z v)
          = k\<^sup>2 * (X v * X v + Y v * Y v + Z v * Z v)"
    by (simp add: power2_eq_square algebra_simps)
  then show ?thesis
    by (simp add: Size_def VecScale_def real_sqrt_mult)
qed

lemma Size_zero_iff: "Size v = 0 \<longleftrightarrow> v = Vec3 0 0 0"
proof
  assume "Size v = 0"
  then have s: "X v * X v + Y v * Y v + Z v * Z v = 0" by (simp add: Size_def)
  have "X v * X v \<ge> 0" "Y v * Y v \<ge> 0" "Z v * Z v \<ge> 0" by simp_all
  with s have "X v * X v = 0" "Y v * Y v = 0" "Z v * Z v = 0" by linarith+
  then show "v = Vec3 0 0 0" by simp
next
  assume "v = Vec3 0 0 0"
  then show "Size v = 0" by (simp add: Size_def)
qed

lemma sphere_excess:
  assumes L: "Size CX > 0"
  shows "VecSub CX (VecScale Radius (VecDiv CX (Size CX)))
           = VecScale ((Size CX - Radius) / Size CX) CX"
  using L by (simp add: VecSub_def VecScale_def VecDiv_def field_simps)

subsection \<open>Spherical limit\<close>

lemma sphere_zero_radius: "GetSphereLimitedPositionError CX 0 = CX"
  using Size_nonneg [of CX]
  by (simp add: GetSphereLimitedPositionError_def Let_def VecSub_def VecScale_def)

lemma GetSphereLimitedPositionError_f32_eval:
  "Size_f32 (Vec3 3 0 4) = 5
   \<and> GetSphereLimitedPositionError_f32 (Vec3 3 0 4) 2 =
       Vec3 (7549747 / 4194304) 0 (5033165 / 2097152)"
proof -
  have r1: "round32 (1 / 100000000) = 11258999 / 1125899906842624"
    using round32_near [of 50 "1 / 100000000" "11258999"] by simp
  have r2: "round32 9 = 9"
    using round32_same [of 20 "9" "9437184"] by simp
  have r3: "round32 16 = 16"
    using round32_same [of 19 "16" "8388608"] by simp
  have r4: "round32 25 = 25"
    using round32_same [of 19 "25" "13107200"] by simp
  have r5: "round32 5 = 5"
    using round32_same [of 21 "5" "10485760"] by simp
  have r6: "round32 (3 / 5) = 5033165 / 8388608"
    using round32_near [of 24 "3 / 5" "10066330"] by simp
  have r7: "round32 (4 / 5) = 13421773 / 16777216"
    using round32_near [of 24 "4 / 5" "13421773"] by simp
  have r8: "round32 (5033165 / 4194304) = 5033165 / 4194304"
    using round32_same [of 23 "5033165 / 4194304" "10066330"] by simp
  have r9: "round32 (13421773 / 8388608) = 13421773 / 8388608"
    using round32_same [of 23 "13421773 / 8388608" "13421773"] by simp
  have r10: "round32 (7549747 / 4194304) = 7549747 / 4194304"
    using round32_same [of 23 "7549747 / 4194304" "15099494"] by simp
  have r11: "round32 (20132659 / 8388608) = 5033165 / 2097152"
    using round32_tie [of 22 "20132659 / 8388608" "10066329"] by simp
  note rs = round32_zero r1 r2 r3 r4 r5 r6 r7 r8 r9 r10 r11
  have "sqrt 25 = sqrt (5\<^sup>2)" by simp
  then have s: "sqrt 25 = 5" by (simp only: real_sqrt_abs) 
  show ?thesis
    by (simp add: GetSphereLimitedPositionError_f32_def Size_f32_def VecDiv_f32_def
        VecSub_f32_def VecScale_f32_def SMALL_NUMBER_f32_def SMALL_NUMBER_def ops32 Let_def s rs)
qed

text \<open>Dividing \<open>CX\<close> by its length as a multiplication by the rounded reciprocal gives the
  same result at this input.\<close>

lemma GetSphereLimitedPositionError_f32_reciprocal:
  "VecSub_f32 (Vec3 3 0 4) (VecScale_f32 2 (VecScale_f32 (Div32 1 5) (Vec3 3 0 4))) =
     Vec3 (7549747 / 4194304) 0 (5033165 / 2097152)"
proof -
  have r1: "round32 (1 / 5) = 13421773 / 67108864"
    using round32_near [of 26 "1 / 5" "13421773"] by simp
  have r2: "round32 (40265319 / 67108864) = 5033165 / 8388608"
    using round32_near [of 24 "40265319 / 67108864" "10066330"] by simp
  have r3: "round32 (13421773 / 16777216) = 13421773 / 16777216"
    using round32_same [of 24 "13421773 / 16777216" "13421773"] by simp
  have r4: "round32 (5033165 / 4194304) = 5033165 / 4194304"
    using round32_same [of 23 "5033165 / 4194304" "10066330"] by simp
  have r5: "round32 (13421773 / 8388608) = 13421773 / 8388608"
    using round32_same [of 23 "13421773 / 8388608" "13421773"] by simp
  have r6: "round32 (7549747 / 4194304) = 7549747 / 4194304"
    using round32_same [of 23 "7549747 / 4194304" "15099494"] by simp
  have r7: "round32 (20132659 / 8388608) = 5033165 / 2097152"
    using round32_tie [of 22 "20132659 / 8388608" "10066329"] by simp
  note rs = round32_zero r1 r2 r3 r4 r5 r6 r7
  show ?thesis
    by (simp add: VecSub_f32_def VecScale_f32_def ops32 rs)
qed

text \<open>C5, as stated, fails for an error shorter than \<^verbatim>\<open>SMALL_NUMBER\<close>: with
  \<open>CX = (10\<^sup>-\<^sup>9, 0, 0)\<close> and limit \<open>5 \<sqdot> 10\<^sup>-\<^sup>1\<^sup>0\<close> the length is \<open>limit + d\<close> for
  \<open>d = 5 \<sqdot> 10\<^sup>-\<^sup>1\<^sup>0 > 0\<close>, but the function takes its last branch and returns \<open>CX\<close>
  itself, of length \<open>10\<^sup>-\<^sup>9\<close>, not \<open>d\<close>. In binary32 it fails also by rounding: for
  \<open>CX = (3, 0, 4)\<close> and limit \<open>2\<close> the computed length is \<open>5 = limit + d\<close> with \<open>d = 3\<close>,
  and the result, about \<open>(1.79999995, 0, 2.4000001)\<close>, has a length other than \<open>3\<close> and is
  not parallel to \<open>CX\<close>.\<close>

theorem sphere_tiny_error_kept:
  "Size (Vec3 (1 / 10 ^ 9) 0 0) = 1 / (2 * 10 ^ 9) + 1 / (2 * 10 ^ 9)
   \<and> (0::real) < 1 / (2 * 10 ^ 9)
   \<and> Size (GetSphereLimitedPositionError (Vec3 (1 / 10 ^ 9) 0 0) (1 / (2 * 10 ^ 9)))
       \<noteq> 1 / (2 * 10 ^ 9)
   \<and> Size_f32 (Vec3 3 0 4) = 2 + 3
   \<and> GetSphereLimitedPositionError_f32 (Vec3 3 0 4) 2 =
       Vec3 (7549747 / 4194304) 0 (5033165 / 2097152)
   \<and> Size (GetSphereLimitedPositionError_f32 (Vec3 3 0 4) 2) \<noteq> 3
   \<and> CrossProduct (GetSphereLimitedPositionError_f32 (Vec3 3 0 4) 2) (Vec3 3 0 4)
       \<noteq> Vec3 0 0 0"
proof -
  have s: "Size (Vec3 (1 / 10 ^ 9) 0 0) = 1 / 10 ^ 9"
    by (simp add: Size_def real_sqrt_divide)
  have r: "GetSphereLimitedPositionError (Vec3 (1 / 10 ^ 9) 0 0) (1 / (2 * 10 ^ 9))
             = Vec3 (1 / 10 ^ 9) 0 0"
    unfolding GetSphereLimitedPositionError_def Let_def s
    by (simp add: SMALL_NUMBER_def)
  have exact: "Size (Vec3 (1 / 10 ^ 9) 0 0) = 1 / (2 * 10 ^ 9) + 1 / (2 * 10 ^ 9)
   \<and> (0::real) < 1 / (2 * 10 ^ 9)
   \<and> Size (GetSphereLimitedPositionError (Vec3 (1 / 10 ^ 9) 0 0) (1 / (2 * 10 ^ 9)))
       \<noteq> 1 / (2 * 10 ^ 9)"
    unfolding r s by simp
  note f = GetSphereLimitedPositionError_f32_eval
  have l: "Size (Vec3 (7549747 / 4194304) 0 (5033165 / 2097152)) \<noteq> 3"
  proof
    assume "Size (Vec3 (7549747 / 4194304) 0 (5033165 / 2097152)) = 3"
    then have "(Size (Vec3 (7549747 / 4194304) 0 (5033165 / 2097152)))\<^sup>2 = 3\<^sup>2" by simp
    then show False by (simp add: Size_def)
  qed
  have c: "CrossProduct (Vec3 (7549747 / 4194304) 0 (5033165 / 2097152)) (Vec3 3 0 4)
             \<noteq> Vec3 0 0 0"
    by (simp add: CrossProduct_def)
  show ?thesis using exact f l c by simp
qed

text \<open>C5, amended: in exact arithmetic, for every \<open>CX\<close> with \<open>|CX| < limit\<close> the result is
  the zero vector; for every \<open>CX\<close> with \<open>|CX| = limit + d\<close>, \<open>d > 0\<close>, and either \<open>|CX|\<close>
  above \<^verbatim>\<open>SMALL_NUMBER\<close> or \<open>limit = 0\<close>, the result has magnitude exactly \<open>d\<close> and is
  \<open>CX\<close> scaled by the positive factor \<open>d / |CX|\<close>, hence parallel to \<open>CX\<close>; and a
  zero-length \<open>CX\<close> yields the zero vector.\<close>

theorem sphere_limited_error:
  "(Size CX < Radius \<longrightarrow> GetSphereLimitedPositionError CX Radius = Vec3 0 0 0)
   \<and> (Size CX = Radius + d \<and> d > 0 \<and> (Size CX > SMALL_NUMBER \<or> Radius = 0) \<longrightarrow>
        Size (GetSphereLimitedPositionError CX Radius) = d
        \<and> GetSphereLimitedPositionError CX Radius = VecScale (d / Size CX) CX)
   \<and> (Size CX = 0 \<longrightarrow> GetSphereLimitedPositionError CX Radius = Vec3 0 0 0)"
proof -
  have c1: "GetSphereLimitedPositionError CX Radius = Vec3 0 0 0" if "Size CX < Radius"
    using that by (simp add: GetSphereLimitedPositionError_def)
  have c2: "Size (GetSphereLimitedPositionError CX Radius) = d
        \<and> GetSphereLimitedPositionError CX Radius = VecScale (d / Size CX) CX"
    if h: "Size CX = Radius + d \<and> d > 0 \<and> (Size CX > SMALL_NUMBER \<or> Radius = 0)"
  proof (cases "Size CX > SMALL_NUMBER")
    case True
    then have pos: "Size CX > 0" by (simp add: SMALL_NUMBER_def)
    have nl: "\<not> Size CX < Radius" using h by simp
    have "GetSphereLimitedPositionError CX Radius
            = VecSub CX (VecScale Radius (VecDiv CX (Size CX)))"
      using True nl by (simp add: GetSphereLimitedPositionError_def Let_def)
    also have "\<dots> = VecScale ((Size CX - Radius) / Size CX) CX"
      by (rule sphere_excess [OF pos])
    also have "(Size CX - Radius) / Size CX = d / Size CX" using h by simp
    finally have e: "GetSphereLimitedPositionError CX Radius = VecScale (d / Size CX) CX" .
    have "Size (VecScale (d / Size CX) CX) = d"
      using h pos by (simp add: Size_VecScale)
    with e show ?thesis by simp
  next
    case False
    with h have z: "Radius = 0" and sd: "Size CX = d" and d: "d > 0" by simp_all
    have "GetSphereLimitedPositionError CX Radius = CX"
      unfolding z by (rule sphere_zero_radius)
    moreover have "VecScale (d / Size CX) CX = CX"
      using sd d by (simp add: VecScale_def)
    ultimately show ?thesis using sd by simp
  qed
  have c3: "GetSphereLimitedPositionError CX Radius = Vec3 0 0 0" if z: "Size CX = 0"
  proof -
    have "CX = Vec3 0 0 0" using z by (simp add: Size_zero_iff)
    then show ?thesis
      using z by (simp add: GetSphereLimitedPositionError_def Let_def SMALL_NUMBER_def)
  qed
  show ?thesis using c1 c2 c3 by blast
qed

theorem sphere_limited_error_witness:
  "GetSphereLimitedPositionError (Vec3 1 0 0) 2 = Vec3 0 0 0
   \<and> Size (GetSphereLimitedPositionError (Vec3 3 0 4) 2) = 3
   \<and> GetSphereLimitedPositionError (Vec3 3 0 4) 2 = VecScale (3 / 5) (Vec3 3 0 4)
   \<and> Size (GetSphereLimitedPositionError (Vec3 (1 / 10 ^ 9) 0 0) 0) = 1 / 10 ^ 9
   \<and> GetSphereLimitedPositionError (Vec3 0 0 0) (- 1) = Vec3 0 0 0"
proof -
  have s1: "Size (Vec3 1 0 0) = 1" by (simp add: Size_def)
  have "sqrt 25 = sqrt (5\<^sup>2)" by simp
  then have "sqrt 25 = 5" by (simp only: real_sqrt_abs) 
  then have s5: "Size (Vec3 3 0 4) = 5" by (simp add: Size_def)
  have s0: "Size (Vec3 0 0 0) = 0" by (simp add: Size_def)
  have s9: "Size (Vec3 (1 / 10 ^ 9) 0 0) = 1 / 10 ^ 9"
    by (simp add: Size_def real_sqrt_divide)
  have a: "GetSphereLimitedPositionError (Vec3 1 0 0) 2 = Vec3 0 0 0"
    using sphere_limited_error [of "Vec3 1 0 0" 2 0] by (simp add: s1)
  have b: "Size (GetSphereLimitedPositionError (Vec3 3 0 4) 2) = 3
           \<and> GetSphereLimitedPositionError (Vec3 3 0 4) 2 = VecScale (3 / 5) (Vec3 3 0 4)"
  proof -
    have h: "Size (Vec3 3 0 4) = 2 + 3 \<and> (3::real) > 0
             \<and> (Size (Vec3 3 0 4) > SMALL_NUMBER \<or> (2::real) = 0)"
      by (simp add: s5 SMALL_NUMBER_def)
    have "3 / Size (Vec3 3 0 4) = 3 / 5" by (simp add: s5)
    with h sphere_limited_error [of "Vec3 3 0 4" 2 3] show ?thesis by metis
  qed
  have t: "Size (GetSphereLimitedPositionError (Vec3 (1 / 10 ^ 9) 0 0) 0) = 1 / 10 ^ 9"
  proof -
    have h: "Size (Vec3 (1 / 10 ^ 9) 0 0) = 0 + 1 / 10 ^ 9 \<and> (1 / 10 ^ 9 :: real) > 0
             \<and> (Size (Vec3 (1 / 10 ^ 9) 0 0) > SMALL_NUMBER \<or> (0::real) = 0)"
      using s9 by simp
    with sphere_limited_error [of "Vec3 (1 / 10 ^ 9) 0 0" 0 "1 / 10 ^ 9"] show ?thesis
      by blast
  qed
  have c: "GetSphereLimitedPositionError (Vec3 0 0 0) (- 1) = Vec3 0 0 0"
    using sphere_limited_error [of "Vec3 0 0 0" "- 1" 0] by (simp add: s0)
  show ?thesis using a b t c by blast
qed

subsection \<open>Rotated coordinate axes\<close>







subsection \<open>Line and cylinder limits along an axis\<close>









subsection \<open>Limited position error\<close>









subsection \<open>Inertia conditioning\<close>

text \<open>The remapping that \<^verbatim>\<open>ConditionInertia\<close> applies to each component.\<close>

lemma Lerp_remap_mono:
  assumes r: "1 \<le> r" and m: "0 < m" and M: "m < M" and ab: "a \<le> b"
  shows "Lerp (M / r) M ((a - m) / (M - m)) \<le> Lerp (M / r) M ((b - m) / (M - m))"
proof -
  have "M / r \<le> M" using r m M by (simp add: field_simps)
  then have c: "0 \<le> M - M / r" by simp
  have "(a - m) / (M - m) \<le> (b - m) / (M - m)"
    using ab M by (simp add: divide_right_mono)
  then have "(a - m) / (M - m) * (M - M / r) \<le> (b - m) / (M - m) * (M - M / r)"
    using c by (rule mult_right_mono)
  then show ?thesis by (simp add: Lerp_def)
qed

lemma Lerp_remap_ends:
  assumes M: "m < M"
  shows "Lerp (M / r) M ((m - m) / (M - m)) = M / r"
    and "Lerp (M / r) M ((M - m) / (M - m)) = M"
  using M by (simp_all add: Lerp_def)


lemma Max_FVec3_mono_image:
  assumes "\<And>a b. a \<le> b \<Longrightarrow> f a \<le> f b"
  shows "Max_FVec3 (Vec3 (f (X v)) (f (Y v)) (f (Z v))) = f (Max_FVec3 v)"
  using assms [of "X v" "Y v"] assms [of "Y v" "X v"] assms [of "X v" "Z v"]
        assms [of "Z v" "X v"] assms [of "Y v" "Z v"] assms [of "Z v" "Y v"]
  by (auto simp: Max_FVec3_def max_def)

lemma Min_FVec3_mono_image:
  assumes "\<And>a b. a \<le> b \<Longrightarrow> f a \<le> f b"
  shows "Min_FVec3 (Vec3 (f (X v)) (f (Y v)) (f (Z v))) = f (Min_FVec3 v)"
  using assms [of "X v" "Y v"] assms [of "Y v" "X v"] assms [of "X v" "Z v"]
        assms [of "Z v" "X v"] assms [of "Y v" "Z v"] assms [of "Z v" "Y v"]
  by (auto simp: Min_FVec3_def min_def)

lemma ConditionInertia_remapped:
  assumes r: "1 \<le> MaxRatio" and m: "0 < Min_FVec3 InI"
    and g: "MaxRatio < Max_FVec3 InI / Min_FVec3 InI"
  shows "ConditionInertia InI MaxRatio =
           Vec3 (Lerp (Max_FVec3 InI / MaxRatio) (Max_FVec3 InI)
                   ((X InI - Min_FVec3 InI) / (Max_FVec3 InI - Min_FVec3 InI)))
                (Lerp (Max_FVec3 InI / MaxRatio) (Max_FVec3 InI)
                   ((Y InI - Min_FVec3 InI) / (Max_FVec3 InI - Min_FVec3 InI)))
                (Lerp (Max_FVec3 InI / MaxRatio) (Max_FVec3 InI)
                   ((Z InI - Min_FVec3 InI) / (Max_FVec3 InI - Min_FVec3 InI)))"
    and "Min_FVec3 InI < Max_FVec3 InI"
    and "Max_FVec3 (ConditionInertia InI MaxRatio) = Max_FVec3 InI"
    and "Min_FVec3 (ConditionInertia InI MaxRatio) = Max_FVec3 InI / MaxRatio"
proof -
  let ?m = "Min_FVec3 InI" and ?M = "Max_FVec3 InI"
  let ?f = "\<lambda>c. Lerp (?M / MaxRatio) ?M ((c - ?m) / (?M - ?m))"
  have "MaxRatio * ?m < ?M" using g m by (simp add: field_simps)
  moreover have "?m \<le> MaxRatio * ?m" using r m by simp
  ultimately show lt: "?m < ?M" by linarith
  show e: "ConditionInertia InI MaxRatio = Vec3 (?f (X InI)) (?f (Y InI)) (?f (Z InI))"
    using r m g by (simp add: ConditionInertia_def Let_def)
  have mono: "\<And>a b. a \<le> b \<Longrightarrow> ?f a \<le> ?f b"
    by (rule Lerp_remap_mono [OF r m lt])
  show "Max_FVec3 (ConditionInertia InI MaxRatio) = ?M"
    unfolding e using Max_FVec3_mono_image [of ?f InI, OF mono] Lerp_remap_ends(2) [OF lt]
    by simp
  show "Min_FVec3 (ConditionInertia InI MaxRatio) = ?M / MaxRatio"
    unfolding e using Min_FVec3_mono_image [of ?f InI, OF mono] Lerp_remap_ends(1) [OF lt]
    by simp
qed

lemma ConditionInertia_f32_eval:
  "ConditionInertia_f32 (Vec3 1 1 8) 7 =
     Vec3 (9586981 / 8388608) (9586981 / 8388608) 8"
proof -
  have r1: "round32 8 = 8"
    using round32_same [of 20 "8" "8388608"] by simp
  have r2: "round32 (8 / 7) = 9586981 / 8388608"
    using round32_near [of 23 "8 / 7" "9586981"] by simp
  have r3: "round32 7 = 7"
    using round32_same [of 21 "7" "14680064"] by simp
  have r4: "round32 (57521883 / 8388608) = 14380471 / 2097152"
    using round32_near [of 21 "57521883 / 8388608" "14380471"] by simp
  have r5: "round32 (9586981 / 8388608) = 9586981 / 8388608"
    using round32_same [of 23 "9586981 / 8388608" "9586981"] by simp
  have r6: "round32 1 = 1"
    using round32_same [of 23 "1" "8388608"] by simp
  have r7: "round32 (14380471 / 2097152) = 14380471 / 2097152"
    using round32_same [of 21 "14380471 / 2097152" "14380471"] by simp
  have r8: "round32 (67108865 / 8388608) = 8"
    using round32_near [of 20 "67108865 / 8388608" "8388608"] by simp
  note rs = round32_zero r1 r2 r3 r4 r5 r6 r7 r8
  show ?thesis
    by (simp add: ConditionInertia_f32_def Lerp_f32_def ops32 Let_def Min_FVec3_def
        Max_FVec3_def rs)
qed

text \<open>C7, as stated, fails for a positive \<open>maxRatio\<close> below \<open>1\<close>: for \<open>I = (1, 1, 2)\<close>
  and \<open>maxRatio = 1/2\<close> all three conditions of the claim hold, and the result is
  \<open>(4, 4, 2)\<close>: its max/min ratio is \<open>2\<close>, not \<open>1/2\<close>, its maximum is \<open>4\<close>, not \<open>2\<close>,
  and the order of the components is reversed. In binary32 it fails also for
  \<open>maxRatio \<ge> 1\<close>, by rounding: for \<open>I = (1, 1, 8)\<close> and \<open>maxRatio = 7\<close> the result is
  \<open>(m, m, 8)\<close> with \<open>m\<close> the binary32 value nearest to \<open>8/7\<close>, and \<open>8 / m\<close> is not \<open>7\<close>.\<close>

theorem ConditionInertia_small_ratio:
  "(0::real) < 1 / 2 \<and> 0 < Min_FVec3 (Vec3 1 1 2)
   \<and> 1 / 2 < Max_FVec3 (Vec3 1 1 2) / Min_FVec3 (Vec3 1 1 2)
   \<and> ConditionInertia (Vec3 1 1 2) (1 / 2) = Vec3 4 4 2
   \<and> Max_FVec3 (ConditionInertia (Vec3 1 1 2) (1 / 2))
       / Min_FVec3 (ConditionInertia (Vec3 1 1 2) (1 / 2)) \<noteq> 1 / 2
   \<and> Max_FVec3 (ConditionInertia (Vec3 1 1 2) (1 / 2)) \<noteq> Max_FVec3 (Vec3 1 1 2)
   \<and> (1::real) \<le> 7 \<and> 0 < Min_FVec3 (Vec3 1 1 8)
   \<and> 7 < Max_FVec3 (Vec3 1 1 8) / Min_FVec3 (Vec3 1 1 8)
   \<and> ConditionInertia_f32 (Vec3 1 1 8) 7 =
       Vec3 (9586981 / 8388608) (9586981 / 8388608) 8
   \<and> Max_FVec3 (ConditionInertia_f32 (Vec3 1 1 8) 7)
       / Min_FVec3 (ConditionInertia_f32 (Vec3 1 1 8) 7) \<noteq> 7"
proof -
  have e: "ConditionInertia (Vec3 1 1 2) (1 / 2) = Vec3 4 4 2"
    by (simp add: ConditionInertia_def Let_def Min_FVec3_def Max_FVec3_def Lerp_def)
  show ?thesis
    unfolding e ConditionInertia_f32_eval by (simp add: Min_FVec3_def Max_FVec3_def)
qed

text \<open>C7, amended: in exact arithmetic, whenever \<open>maxRatio \<ge> 1\<close>, \<open>min(I) > 0\<close> and
  \<open>max(I) / min(I) > maxRatio\<close>, the result's max/min component ratio equals \<open>maxRatio\<close>
  exactly, the maximum component is unchanged, the minimum becomes \<open>max / maxRatio\<close>, each
  component is the linear remap of its relative position between the original min and max
  into \<open>[max / maxRatio, max]\<close>, and the order of the three components is preserved.
  Whenever one of \<open>maxRatio > 0\<close>, \<open>min(I) > 0\<close>, \<open>max(I) / min(I) > maxRatio\<close> fails,
  the result is \<open>I\<close> unchanged.\<close>

theorem ConditionInertia_bounds_ratio:
  "(1 \<le> MaxRatio \<and> 0 < Min_FVec3 InI \<and> MaxRatio < Max_FVec3 InI / Min_FVec3 InI \<longrightarrow>
      Max_FVec3 (ConditionInertia InI MaxRatio) / Min_FVec3 (ConditionInertia InI MaxRatio)
        = MaxRatio
      \<and> Max_FVec3 (ConditionInertia InI MaxRatio) = Max_FVec3 InI
      \<and> Min_FVec3 (ConditionInertia InI MaxRatio) = Max_FVec3 InI / MaxRatio
      \<and> ConditionInertia InI MaxRatio =
           Vec3 (Lerp (Max_FVec3 InI / MaxRatio) (Max_FVec3 InI)
                   ((X InI - Min_FVec3 InI) / (Max_FVec3 InI - Min_FVec3 InI)))
                (Lerp (Max_FVec3 InI / MaxRatio) (Max_FVec3 InI)
                   ((Y InI - Min_FVec3 InI) / (Max_FVec3 InI - Min_FVec3 InI)))
                (Lerp (Max_FVec3 InI / MaxRatio) (Max_FVec3 InI)
                   ((Z InI - Min_FVec3 InI) / (Max_FVec3 InI - Min_FVec3 InI)))
      \<and> (X InI \<le> Y InI \<longrightarrow>
            X (ConditionInertia InI MaxRatio) \<le> Y (ConditionInertia InI MaxRatio))
      \<and> (Y InI \<le> X InI \<longrightarrow>
            Y (ConditionInertia InI MaxRatio) \<le> X (ConditionInertia InI MaxRatio))
      \<and> (X InI \<le> Z InI \<longrightarrow>
            X (ConditionInertia InI MaxRatio) \<le> Z (ConditionInertia InI MaxRatio))
      \<and> (Z InI \<le> X InI \<longrightarrow>
            Z (ConditionInertia InI MaxRatio) \<le> X (ConditionInertia InI MaxRatio))
      \<and> (Y InI \<le> Z InI \<longrightarrow>
            Y (ConditionInertia InI MaxRatio) \<le> Z (ConditionInertia InI MaxRatio))
      \<and> (Z InI \<le> Y InI \<longrightarrow>
            Z (ConditionInertia InI MaxRatio) \<le> Y (ConditionInertia InI MaxRatio)))
   \<and> (\<not> (0 < MaxRatio \<and> 0 < Min_FVec3 InI \<and> MaxRatio < Max_FVec3 InI / Min_FVec3 InI) \<longrightarrow>
        ConditionInertia InI MaxRatio = InI)"
proof -
  have other: "ConditionInertia InI MaxRatio = InI"
    if "\<not> (0 < MaxRatio \<and> 0 < Min_FVec3 InI \<and> MaxRatio < Max_FVec3 InI / Min_FVec3 InI)"
    using that by (auto simp: ConditionInertia_def Let_def)
  have main: "Max_FVec3 (ConditionInertia InI MaxRatio) / Min_FVec3 (ConditionInertia InI MaxRatio)
        = MaxRatio
      \<and> Max_FVec3 (ConditionInertia InI MaxRatio) = Max_FVec3 InI
      \<and> Min_FVec3 (ConditionInertia InI MaxRatio) = Max_FVec3 InI / MaxRatio
      \<and> ConditionInertia InI MaxRatio =
           Vec3 (Lerp (Max_FVec3 InI / MaxRatio) (Max_FVec3 InI)
                   ((X InI - Min_FVec3 InI) / (Max_FVec3 InI - Min_FVec3 InI)))
                (Lerp (Max_FVec3 InI / MaxRatio) (Max_FVec3 InI)
                   ((Y InI - Min_FVec3 InI) / (Max_FVec3 InI - Min_FVec3 InI)))
                (Lerp (Max_FVec3 InI / MaxRatio) (Max_FVec3 InI)
                   ((Z InI - Min_FVec3 InI) / (Max_FVec3 InI - Min_FVec3 InI)))
      \<and> (X InI \<le> Y InI \<longrightarrow>
            X (ConditionInertia InI MaxRatio) \<le> Y (ConditionInertia InI MaxRatio))
      \<and> (Y InI \<le> X InI \<longrightarrow>
            Y (ConditionInertia InI MaxRatio) \<le> X (ConditionInertia InI MaxRatio))
      \<and> (X InI \<le> Z InI \<longrightarrow>
            X (ConditionInertia InI MaxRatio) \<le> Z (ConditionInertia InI MaxRatio))
      \<and> (Z InI \<le> X InI \<longrightarrow>
            Z (ConditionInertia InI MaxRatio) \<le> X (ConditionInertia InI MaxRatio))
      \<and> (Y InI \<le> Z InI \<longrightarrow>
            Y (ConditionInertia InI MaxRatio) \<le> Z (ConditionInertia InI MaxRatio))
      \<and> (Z InI \<le> Y InI \<longrightarrow>
            Z (ConditionInertia InI MaxRatio) \<le> Y (ConditionInertia InI MaxRatio))"
    if h: "1 \<le> MaxRatio \<and> 0 < Min_FVec3 InI \<and> MaxRatio < Max_FVec3 InI / Min_FVec3 InI"
  proof -
    from h have r: "1 \<le> MaxRatio" and m: "0 < Min_FVec3 InI"
      and g: "MaxRatio < Max_FVec3 InI / Min_FVec3 InI" by simp_all
    note f = ConditionInertia_remapped [OF r m g]
    have Mpos: "0 < Max_FVec3 InI" using m f(2) by linarith
    have ratio: "Max_FVec3 (ConditionInertia InI MaxRatio)
                   / Min_FVec3 (ConditionInertia InI MaxRatio) = MaxRatio"
      unfolding f(3) f(4) using Mpos r by simp
    have mono: "\<And>a b. a \<le> b \<Longrightarrow>
        Lerp (Max_FVec3 InI / MaxRatio) (Max_FVec3 InI)
           ((a - Min_FVec3 InI) / (Max_FVec3 InI - Min_FVec3 InI))
        \<le> Lerp (Max_FVec3 InI / MaxRatio) (Max_FVec3 InI)
           ((b - Min_FVec3 InI) / (Max_FVec3 InI - Min_FVec3 InI))"
      by (rule Lerp_remap_mono [OF r m f(2)])
    have ord: "(X InI \<le> Y InI \<longrightarrow>
            X (ConditionInertia InI MaxRatio) \<le> Y (ConditionInertia InI MaxRatio))
      \<and> (Y InI \<le> X InI \<longrightarrow>
            Y (ConditionInertia InI MaxRatio) \<le> X (ConditionInertia InI MaxRatio))
      \<and> (X InI \<le> Z InI \<longrightarrow>
            X (ConditionInertia InI MaxRatio) \<le> Z (ConditionInertia InI MaxRatio))
      \<and> (Z InI \<le> X InI \<longrightarrow>
            Z (ConditionInertia InI MaxRatio) \<le> X (ConditionInertia InI MaxRatio))
      \<and> (Y InI \<le> Z InI \<longrightarrow>
            Y (ConditionInertia InI MaxRatio) \<le> Z (ConditionInertia InI MaxRatio))
      \<and> (Z InI \<le> Y InI \<longrightarrow>
            Z (ConditionInertia InI MaxRatio) \<le> Y (ConditionInertia InI MaxRatio))"
      unfolding f(1) using mono by simp
    show ?thesis using ratio f(3) f(4) f(1) ord by blast
  qed
  show ?thesis using main other by blast
qed

theorem ConditionInertia_bounds_ratio_witness:
  "Max_FVec3 (ConditionInertia (Vec3 1 1 100) 10)
     / Min_FVec3 (ConditionInertia (Vec3 1 1 100) 10) = 10
   \<and> Max_FVec3 (ConditionInertia (Vec3 1 1 100) 10) = 100
   \<and> Min_FVec3 (ConditionInertia (Vec3 1 1 100) 10) = 10
   \<and> X (ConditionInertia (Vec3 1 1 100) 10) \<le> Z (ConditionInertia (Vec3 1 1 100) 10)
   \<and> ConditionInertia (Vec3 1 1 2) 10 = Vec3 1 1 2"
proof -
  have h: "(1::real) \<le> 10 \<and> 0 < Min_FVec3 (Vec3 1 1 100)
           \<and> 10 < Max_FVec3 (Vec3 1 1 100) / Min_FVec3 (Vec3 1 1 100)"
    by (simp add: Min_FVec3_def Max_FVec3_def)
  note t = ConditionInertia_bounds_ratio [of 10 "Vec3 1 1 100"]
  have r1: "Max_FVec3 (ConditionInertia (Vec3 1 1 100) 10)
     / Min_FVec3 (ConditionInertia (Vec3 1 1 100) 10) = 10"
    using t h by blast
  have "Max_FVec3 (ConditionInertia (Vec3 1 1 100) 10) = Max_FVec3 (Vec3 1 1 100)"
    using t h by blast
  then have r2: "Max_FVec3 (ConditionInertia (Vec3 1 1 100) 10) = 100"
    by (simp add: Max_FVec3_def)
  have "Min_FVec3 (ConditionInertia (Vec3 1 1 100) 10) = Max_FVec3 (Vec3 1 1 100) / 10"
    using t h by blast
  then have r3: "Min_FVec3 (ConditionInertia (Vec3 1 1 100) 10) = 10"
    by (simp add: Max_FVec3_def)
  have "X (Vec3 1 1 100) \<le> Z (Vec3 1 1 100) \<longrightarrow>
        X (ConditionInertia (Vec3 1 1 100) 10) \<le> Z (ConditionInertia (Vec3 1 1 100) 10)"
    using t h by blast
  then have r4: "X (ConditionInertia (Vec3 1 1 100) 10)
                  \<le> Z (ConditionInertia (Vec3 1 1 100) 10)"
    by simp
  note a = r1 r2 r3 r4
  have n: "\<not> ((0::real) < 10 \<and> 0 < Min_FVec3 (Vec3 1 1 2)
           \<and> 10 < Max_FVec3 (Vec3 1 1 2) / Min_FVec3 (Vec3 1 1 2))"
    by (simp add: Min_FVec3_def Max_FVec3_def)
  have b: "ConditionInertia (Vec3 1 1 2) 10 = Vec3 1 1 2"
    using ConditionInertia_bounds_ratio [of 10 "Vec3 1 1 2"] n by blast
  show ?thesis using a b by blast
qed

subsection \<open>Parent/child conditioning\<close>








lemma conditioned_fields:
  "InvMParent (ConditionInverseMassAndInertia a b Ia Ib m r) =
     (if 0 < a then 1 / (if 0 < b then ConditionParentMass (1 / a) (1 / b) m else 1 / a)
      else a)"
  "InvMChild (ConditionInverseMassAndInertia a b Ia Ib m r) =
     (if 0 < b then 1 / (1 / b) else b)"
  "InvIParent (ConditionInverseMassAndInertia a b Ia Ib m r) =
     (if 0 < a
      then Reciprocal (if 0 < b
                       then ConditionParentInertia (ConditionInertia (Reciprocal Ia) r)
                              (ConditionInertia (Reciprocal Ib) r) m
                       else ConditionInertia (Reciprocal Ia) r)
      else Ia)"
  "InvIChild (ConditionInverseMassAndInertia a b Ia Ib m r) =
     (if 0 < b then Reciprocal (ConditionInertia (Reciprocal Ib) r) else Ib)"
  by (simp_all add: ConditionInverseMassAndInertia_def Let_def)










text \<open>C10: for a child with positive inverse mass \<^verbatim>\<open>ConditionInverseMassAndInertia\<close>
  returns the child's inverse mass unchanged, and the child's inverse inertia depends only
  on the child's own inverse inertia and \<open>maxRatio\<close>, not on the parent or on \<open>minRatio\<close>;
  a body (child or parent) with non-positive inverse mass has both its inverse mass and its
  inverse inertia left unchanged.\<close>

theorem child_mass_unchanged:
  "(0 < InvMC \<longrightarrow>
      InvMChild (ConditionInverseMassAndInertia InvMP InvMC InvIP InvIC MinRatio MaxRatio)
        = InvMC
      \<and> InvIChild (ConditionInverseMassAndInertia InvMP InvMC InvIP InvIC MinRatio MaxRatio)
        = Reciprocal (ConditionInertia (Reciprocal InvIC) MaxRatio))
   \<and> (\<not> 0 < InvMC \<longrightarrow>
      InvMChild (ConditionInverseMassAndInertia InvMP InvMC InvIP InvIC MinRatio MaxRatio)
        = InvMC
      \<and> InvIChild (ConditionInverseMassAndInertia InvMP InvMC InvIP InvIC MinRatio MaxRatio)
        = InvIC)
   \<and> (\<not> 0 < InvMP \<longrightarrow>
      InvMParent (ConditionInverseMassAndInertia InvMP InvMC InvIP InvIC MinRatio MaxRatio)
        = InvMP
      \<and> InvIParent (ConditionInverseMassAndInertia InvMP InvMC InvIP InvIC MinRatio MaxRatio)
        = InvIP)"
  by (simp add: conditioned_fields)

theorem child_mass_unchanged_witness:
  "InvMChild (ConditionInverseMassAndInertia 1 (1 / 100) (Vec3 1 1 (1 / 100))
       (Vec3 (1 / 100) (1 / 100) (1 / 100)) (1 / 2) 10) = 1 / 100
   \<and> InvMChild (ConditionInverseMassAndInertia 0 0 (Vec3 1 2 3) (Vec3 4 5 6) (1 / 2) 10) = 0
   \<and> InvIChild (ConditionInverseMassAndInertia 0 0 (Vec3 1 2 3) (Vec3 4 5 6) (1 / 2) 10)
       = Vec3 4 5 6
   \<and> InvMParent (ConditionInverseMassAndInertia 0 0 (Vec3 1 2 3) (Vec3 4 5 6) (1 / 2) 10) = 0
   \<and> InvIParent (ConditionInverseMassAndInertia 0 0 (Vec3 1 2 3) (Vec3 4 5 6) (1 / 2) 10)
       = Vec3 1 2 3"
proof -
  have a: "(0::real) < 1 / 100" and b: "\<not> (0::real) < 0" by simp_all
  show ?thesis
    using child_mass_unchanged [of "1 / 100" 1 "Vec3 1 1 (1 / 100)"
            "Vec3 (1 / 100) (1 / 100) (1 / 100)" "1 / 2" 10]
          child_mass_unchanged [of 0 0 "Vec3 1 2 3" "Vec3 4 5 6" "1 / 2" 10] a b
    by blast
qed


end
